theory Spec2Isabelle
  imports Main
begin

section \<open>The ui-image component (ui-image.tsx)\<close>

subsection \<open>Data model\<close>

text \<open>
  The browser's \<open>File\<close>: only the two properties the component reads. \<open>File.size\<close> is a
  non-negative integer.
\<close>

record js_file =
  name :: string
  size_file :: nat

text \<open>A \<open>Date\<close> is its time value (milliseconds since the epoch).\<close>

type_synonym date = nat

text \<open>
  \<open>interface ImageMetadata\<close>. The object written by \<open>updateStatus\<close> is built by an object
  spread and cast with \<open>as any\<close>, so at run time each property may be absent: every field
  is optional in the model.
\<close>

record image_metadata =
  format :: "string option"
  width :: "nat option"
  height :: "nat option"
  size_meta :: "nat option"
  lastUpdated :: "date option"

text \<open>The object \<open>{}\<close>, which is what spreading \<open>null\<close> yields.\<close>

definition empty_object :: image_metadata where
  "empty_object =
     \<lparr>format = None, width = None, height = None, size_meta = None, lastUpdated = None\<rparr>"

datatype status_type = Neutral | Success | Error

text \<open>
  A function value is modelled by its reference identity. The three kinds of operation
  of the \<open>options\<close> bundle of \<open>setValue\<close>:
\<close>

type_synonym read_op = nat
type_synonym write_op = nat
type_synonym observe_op = nat

record options =
  readOperation :: "read_op option"
  writeOperation :: "write_op option"
  observeOperation :: "observe_op option"

text \<open>
  The calls the component makes to code outside itself, in the order made. The source calls
  the stored write operation (\<open>handleSend\<close>) and \<open>FileReader.readAsDataURL\<close>
  (\<open>handleFileSelect\<close>); the read and observe operations are never called (the lines that
  would store them are commented out).
\<close>

datatype call =
  CallWrite write_op js_file
  | CallRead read_op
  | CallObserve observe_op
  | ReadAsDataURL js_file

text \<open>
  The class \<open>UiImage\<close>: its props, its \<open>@State\<close> fields, the private
  \<open>storedWriteOperation\<close> (\<open>None\<close> is \<open>undefined\<close>) and the private \<open>fileInput\<close>
  reference; of the input element only its \<open>value\<close> is modelled, and \<open>None\<close> is a
  reference that has not been assigned.
\<close>

record ui_image =
  label :: string
  canRead :: bool
  canWrite :: bool
  canObserve :: bool
  acceptedFormats :: string
  maxFileSize :: nat
  height_prop :: string
  showLastUpdated :: bool
  showStatus :: bool
  dark :: bool
  isObserving :: bool
  selectedFile :: "js_file option"
  currentImageUrl :: "string option"
  metadata :: "image_metadata option"
  loading :: bool
  statusText :: string
  statusType :: status_type
  storedWriteOperation :: "write_op option"
  fileInput :: "string option"

text \<open>The field initialisers of the class.\<close>

definition initial :: ui_image where
  "initial =
     \<lparr>label = ''CameraSnapshot'', canRead = False, canWrite = False, canObserve = False,
      acceptedFormats = ''image/*'', maxFileSize = 5 * 1024 * 1024, height_prop = ''240px'',
      showLastUpdated = True, showStatus = True, dark = False,
      isObserving = False, selectedFile = None, currentImageUrl = None, metadata = None,
      loading = False, statusText = ''No data received yet'', statusType = Neutral,
      storedWriteOperation = None, fileInput = None\<rparr>"

subsection \<open>JavaScript primitives\<close>

text \<open>Truthiness of a \<open>string | null\<close>: \<open>null\<close> and the empty string are falsy.\<close>

definition truthy :: "string option \<Rightarrow> bool" where
  "truthy v = (case v of None \<Rightarrow> False | Some str \<Rightarrow> str \<noteq> [])"

text \<open>\<open>Array.prototype.join\<close> on an array of strings.\<close>

fun join :: "string \<Rightarrow> string list \<Rightarrow> string" where
  "join sep [] = []"
| "join sep [x] = x"
| "join sep (x # y # ys) = x @ sep @ join sep (y # ys)"

text \<open>\<open>xs[i]\<close>: \<open>undefined\<close> (here \<open>None\<close>) when the index is out of range.\<close>

definition index :: "'a list \<Rightarrow> nat \<Rightarrow> 'a option" where
  "index xs i = (if i < length xs then Some (xs ! i) else None)"

text \<open>String concatenation converts \<open>undefined\<close> to the text \<open>undefined\<close>.\<close>

definition to_string :: "string option \<Rightarrow> string" where
  "to_string v = (case v of None \<Rightarrow> ''undefined'' | Some str \<Rightarrow> str)"

definition digit :: "nat \<Rightarrow> char" where
  "digit d = ''0123456789'' ! d"

text \<open>The decimal numeral of a non-negative integer.\<close>

function decimal :: "nat \<Rightarrow> string" where
  "decimal n = (if n < 10 then [digit n] else decimal (n div 10) @ [digit (n mod 10)])"
  by pat_completeness auto
termination
  by (relation "measure (\<lambda>n. n)") auto

declare decimal.simps [simp del]

text \<open>
  \<open>Math.floor(Math.log(n) / Math.log(k))\<close> for an integer \<open>n \<ge> 1\<close>, computed exactly: the
  number of times \<open>n\<close> can be divided by \<open>k\<close> before it falls below \<open>k\<close>.
\<close>

function floor_log :: "nat \<Rightarrow> nat \<Rightarrow> nat" where
  "floor_log k n = (if k \<le> 1 \<or> n < k then 0 else Suc (floor_log k (n div k)))"
  by pat_completeness auto
termination
  by (relation "measure (\<lambda>(k, n). n)") auto

declare floor_log.simps [simp del]

text \<open>
  \<open>(a / b).toFixed(2)\<close> for a quotient of positive integers: the integer \<open>h\<close> for which
  \<open>h / 100\<close> is closest to \<open>a / b\<close>, the larger one on a tie. The result stands for the
  text of \<open>h / 100\<close> with two decimals, and \<open>parseFloat\<close> reads the number \<open>h / 100\<close> back.
\<close>

definition toFixed2 :: "nat \<Rightarrow> nat \<Rightarrow> nat" where
  "toFixed2 a b = (200 * a + b) div (2 * b)"

text \<open>
  Number-to-string conversion of \<open>h / 100\<close>, as string concatenation does it: the shortest
  decimal text, so trailing zeros and a bare decimal point are dropped.
\<close>

definition number_to_string :: "nat \<Rightarrow> string" where
  "number_to_string h =
     (let whole = h div 100; d1 = (h mod 100) div 10; d2 = h mod 10
      in if d1 = 0 \<and> d2 = 0 then decimal whole
         else if d2 = 0 then decimal whole @ ''.'' @ [digit d1]
         else decimal whole @ ''.'' @ [digit d1, digit d2])"

subsection \<open>Pure helpers of the component\<close>

text \<open>
  \<open>formatFileSize\<close>, on the integer byte counts that \<open>File.size\<close> provides. The source
  computes in IEEE doubles; the model computes the same expression in exact arithmetic, so
  it stands for the source wherever the rounding of the doubles changes neither the floor
  of the quotient of the logarithms nor the rounding to two decimals.
\<close>

definition formatFileSize :: "nat \<Rightarrow> string" where
  "formatFileSize bytes =
     (if bytes = 0 then ''0 B''
      else
        let k = 1024;
            sizes = [''B'', ''KB'', ''MB'', ''GB'', ''TB''];
            i = floor_log k bytes
        in number_to_string (toFixed2 bytes (k ^ i)) @ '' '' @ to_string (index sizes i))"

definition getSubtitle :: "ui_image \<Rightarrow> string" where
  "getSubtitle s =
     (let parts = [];
          parts = (if canRead s then parts @ [''Read-only''] else parts);
          parts = (if canWrite s then parts @ [''Writable''] else parts);
          parts = (if canObserve s then parts @ [''Live''] else parts);
          joined = join '' / '' parts
      in if joined \<noteq> [] then joined else ''Image'')"

definition getPlaceholderText :: "ui_image \<Rightarrow> string" where
  "getPlaceholderText s =
     (if canRead s then ''Image Placeholder''
      else if canObserve s then ''Waiting for connection...''
      else ''No image available.'')"

subsection \<open>Handlers\<close>

text \<open>The object spread \<open>{ ...m }\<close> of a metadata object that may be \<open>null\<close>.\<close>

definition spread :: "image_metadata option \<Rightarrow> image_metadata" where
  "spread m = (case m of None \<Rightarrow> empty_object | Some obj \<Rightarrow> obj)"

text \<open>\<open>updateStatus\<close>; \<open>now\<close> is the value of \<open>new Date()\<close>.\<close>

definition updateStatus :: "string \<Rightarrow> status_type \<Rightarrow> date \<Rightarrow> ui_image \<Rightarrow> ui_image" where
  "updateStatus msg ty now s =
     (let s = s\<lparr>statusText := msg\<rparr>;
          s = s\<lparr>statusType := ty\<rparr>
      in if ty = Success \<or> (truthy (currentImageUrl s) \<and> ty \<noteq> Error)
         then s\<lparr>metadata := Some ((spread (metadata s))\<lparr>lastUpdated := Some now\<rparr>)\<rparr>
         else s)"

text \<open>
  \<open>setValue\<close>. The options bundle is optional, and so is each operation in it; a function
  is always truthy. Each handler returns the new state and the outside calls it made.
\<close>

definition setValue :: "'v \<Rightarrow> options option \<Rightarrow> ui_image \<Rightarrow> ui_image \<times> call list" where
  "setValue v opts s =
     (case opts of
        None \<Rightarrow> (s, [])
      | Some bundle \<Rightarrow>
          (case writeOperation bundle of
             None \<Rightarrow> (s, [])
           | Some w \<Rightarrow> (s\<lparr>storedWriteOperation := Some w\<rparr>, [])))"

text \<open>
  \<open>handleFileSelect\<close>, up to the start of the read; \<open>files\<close> is \<open>input.files\<close>, which may be
  \<open>null\<close>.
\<close>

definition handleFileSelect :: "js_file list option \<Rightarrow> date \<Rightarrow> ui_image \<Rightarrow> ui_image \<times> call list" where
  "handleFileSelect files now s =
     (case files of
        None \<Rightarrow> (s, [])
      | Some [] \<Rightarrow> (s, [])
      | Some (f # _) \<Rightarrow>
          (let s = s\<lparr>selectedFile := Some f\<rparr>;
               s = (if isObserving s
                    then updateStatus ''Live stopped for selection'' Neutral now
                           (s\<lparr>isObserving := False\<rparr>)
                    else s)
           in (s, [ReadAsDataURL f])))"

text \<open>The \<open>reader.onload\<close> callback; \<open>result\<close> is \<open>e.target?.result\<close>.\<close>

definition reader_onload :: "string option \<Rightarrow> date \<Rightarrow> ui_image \<Rightarrow> ui_image" where
  "reader_onload result now s =
     (let s = (if truthy result then s\<lparr>currentImageUrl := result\<rparr> else s)
      in updateStatus ''Displaying'' Neutral now s)"

text \<open>
  \<open>handleSend\<close> is asynchronous. \<open>handleSend_begin\<close> is the part that runs when it is called:
  the guard, the two updates and the call of the stored operation with the selected file.
\<close>

definition handleSend_begin :: "date \<Rightarrow> ui_image \<Rightarrow> ui_image \<times> call list" where
  "handleSend_begin now s =
     (case selectedFile s of
        None \<Rightarrow> (s, [])
      | Some f \<Rightarrow>
          (case storedWriteOperation s of
             None \<Rightarrow> (s, [])
           | Some w \<Rightarrow>
               (let s = s\<lparr>loading := True\<rparr>;
                    s = updateStatus ''Sending...'' Neutral now s
                in (s, [CallWrite w f]))))"

text \<open>
  What the called operation does: its promise resolves, its promise rejects, or the call
  itself throws. (A promise that never settles leaves \<open>handleSend\<close> suspended after
  \<open>handleSend_begin\<close>.)
\<close>

datatype write_outcome = Resolves | Rejects | Throws

text \<open>
  \<open>handleSend_settle\<close> is the rest of \<open>handleSend\<close>: the statement after the \<open>await\<close>, the
  \<open>catch\<close> block and the \<open>finally\<close> block. It runs on the state the component has when
  the outcome arrives.
\<close>

definition handleSend_settle :: "write_outcome \<Rightarrow> date \<Rightarrow> ui_image \<Rightarrow> ui_image" where
  "handleSend_settle outcome now s =
     (let s = (case outcome of
                 Resolves \<Rightarrow> updateStatus ''Sent successfully'' Success now s
               | Rejects \<Rightarrow> updateStatus ''Failed to send'' Error now s
               | Throws \<Rightarrow> updateStatus ''Failed to send'' Error now s)
      in s\<lparr>loading := False\<rparr>)"

text \<open>
  The whole of \<open>handleSend\<close> when no other handler runs before the outcome arrives: it goes
  on past the \<open>await\<close> exactly when it made the call.
\<close>

definition handleSend :: "write_outcome \<Rightarrow> date \<Rightarrow> date \<Rightarrow> ui_image \<Rightarrow> ui_image \<times> call list" where
  "handleSend outcome t1 t2 s =
     (case handleSend_begin t1 s of
        (s1, []) \<Rightarrow> (s1, [])
      | (s1, c # cs) \<Rightarrow> (handleSend_settle outcome t2 s1, c # cs))"

text \<open>\<open>onImageLoad\<close>, with the natural size of the image element.\<close>

definition onImageLoad :: "nat \<Rightarrow> nat \<Rightarrow> date \<Rightarrow> ui_image \<Rightarrow> ui_image" where
  "onImageLoad naturalWidth naturalHeight now s =
     (let s = s\<lparr>metadata := Some
                 \<lparr>format = Some ''IMG'',
                  width = Some naturalWidth,
                  height = Some naturalHeight,
                  size_meta = Some (case selectedFile s of
                                      None \<Rightarrow> 0
                                    | Some f \<Rightarrow> if size_file f \<noteq> 0 then size_file f else 0),
                  lastUpdated = Some now\<rparr>\<rparr>
      in s\<lparr>loading := False\<rparr>)"

text \<open>The \<open>onError\<close> handler of the image element in \<open>render\<close>.\<close>

definition image_onError :: "date \<Rightarrow> ui_image \<Rightarrow> ui_image" where
  "image_onError now s = updateStatus ''Failed to display image'' Error now s"

text \<open>
  The \<open>onClick\<close> handler of the Cancel button in \<open>render\<close>. Writing \<open>value\<close> through a
  reference that was never assigned raises a TypeError, after the first assignment has
  been made.
\<close>

datatype js_error = TypeError

definition cancel_onClick :: "ui_image \<Rightarrow> ui_image \<times> js_error option" where
  "cancel_onClick s =
     (let s = s\<lparr>selectedFile := None\<rparr>
      in case fileInput s of
           None \<Rightarrow> (s, Some TypeError)
         | Some _ \<Rightarrow> (s\<lparr>fileInput := Some []\<rparr>, None))"

text \<open>
  The "Last update" line of \<open>render\<close>: the locale time text of the timestamp, or a dash.
  A \<open>Date\<close> object is always truthy.
\<close>

datatype last_update = LocaleTimeString date | Dash

definition lastUpdateText :: "ui_image \<Rightarrow> last_update" where
  "lastUpdateText s =
     (case metadata s of
        None \<Rightarrow> Dash
      | Some m \<Rightarrow> (case lastUpdated m of None \<Rightarrow> Dash | Some d \<Rightarrow> LocaleTimeString d))"

subsection \<open>Vocabulary of the properties\<close>

text \<open>\<open>m?.p\<close>: a property of a metadata object that may be \<open>null\<close>.\<close>

definition field :: "(image_metadata \<Rightarrow> 'a option) \<Rightarrow> image_metadata option \<Rightarrow> 'a option" where
  "field p m = (case m of None \<Rightarrow> None | Some obj \<Rightarrow> p obj)"

text \<open>A metadata object with all five properties of \<open>ImageMetadata\<close> present.\<close>

definition full_metadata :: "image_metadata \<Rightarrow> bool" where
  "full_metadata m =
     (format m \<noteq> None \<and> width m \<noteq> None \<and> height m \<noteq> None \<and> size_meta m \<noteq> None
      \<and> lastUpdated m \<noteq> None)"

section \<open>Properties\<close>

text \<open>
  C8. For every combination of the three capability flags, the subtitle is the join with
  separator " / ", in the fixed order Read-only, Writable, Live, of the labels whose flag
  is true, and it is "Image" when all three flags are false. The eight combinations are
  written out.
\<close>

theorem getSubtitle_table:
  "getSubtitle s =
     (if canRead s then
        (if canWrite s then
           (if canObserve s then ''Read-only / Writable / Live'' else ''Read-only / Writable'')
         else
           (if canObserve s then ''Read-only / Live'' else ''Read-only''))
      else
        (if canWrite s then
           (if canObserve s then ''Writable / Live'' else ''Writable'')
         else
           (if canObserve s then ''Live'' else ''Image'')))"
  by (simp add: getSubtitle_def)

theorem getSubtitle_table_witness:
  "getSubtitle (initial\<lparr>canRead := True, canObserve := True\<rparr>) = ''Read-only / Live''
   \<and> getSubtitle initial = ''Image''"
  using getSubtitle_table [of "initial\<lparr>canRead := True, canObserve := True\<rparr>"]
    getSubtitle_table [of initial]
  by (simp add: initial_def)

text \<open>
  C9. For every combination of the three capability flags, the placeholder text is
  "Image Placeholder" when canRead is true, else "Waiting for connection..." when canObserve
  is true, else "No image available."; canWrite has no influence, so canWrite alone yields
  "No image available.".
\<close>

theorem getPlaceholderText_rules:
  "getPlaceholderText s =
     (if canRead s then ''Image Placeholder''
      else if canObserve s then ''Waiting for connection...''
      else ''No image available.'')
   \<and> getPlaceholderText (s\<lparr>canWrite := w\<rparr>) = getPlaceholderText s
   \<and> getPlaceholderText (s\<lparr>canRead := False, canWrite := True, canObserve := False\<rparr>)
       = ''No image available.''"
  by (simp add: getPlaceholderText_def)

theorem getPlaceholderText_rules_witness:
  "getPlaceholderText (initial\<lparr>canWrite := True\<rparr>) = ''No image available.''
   \<and> getPlaceholderText (initial\<lparr>canRead := True, canObserve := True\<rparr>) = ''Image Placeholder''
   \<and> getPlaceholderText (initial\<lparr>canObserve := True\<rparr>) = ''Waiting for connection...''"
  using getPlaceholderText_rules [of "initial\<lparr>canWrite := True\<rparr>" True]
    getPlaceholderText_rules [of "initial\<lparr>canRead := True, canObserve := True\<rparr>" False]
    getPlaceholderText_rules [of "initial\<lparr>canObserve := True\<rparr>" False]
  by (simp add: initial_def)

subsection \<open>Evaluating the size formatter\<close>

lemma floor_log_two_petabytes: "floor_log 1024 2251799813685248 = 5"
  by (simp add: floor_log.simps)

lemma number_to_string_two: "number_to_string 200 = ''2''"
  by (simp add: number_to_string_def decimal.simps digit_def)

text \<open>
  C1. The size formatter is to return, for every byte count of at least 1, a unit drawn
  from B, KB, MB, GB, TB and chosen by the floor of the logarithm to base 1024. At
  \<open>2^51\<close> bytes (2 PiB) that index is 5, one past the end of the five-entry table: the
  numeric part is 2 and the unit is the text "undefined".
\<close>

theorem formatFileSize_two_petabytes:
  "formatFileSize 2251799813685248 = ''2 undefined''"
  by (simp add: formatFileSize_def floor_log_two_petabytes toFixed2_def number_to_string_two
      index_def to_string_def)

subsection \<open>Status updates\<close>

lemma updateStatus_statusText: "statusText (updateStatus msg ty now s) = msg"
  by (simp add: updateStatus_def Let_def)

lemma updateStatus_statusType: "statusType (updateStatus msg ty now s) = ty"
  by (simp add: updateStatus_def Let_def)

lemma updateStatus_loading: "loading (updateStatus msg ty now s) = loading s"
  by (simp add: updateStatus_def Let_def)

lemma updateStatus_metadata:
  "metadata (updateStatus msg ty now s) =
     (if ty = Success \<or> (truthy (currentImageUrl s) \<and> ty \<noteq> Error)
      then Some ((spread (metadata s))\<lparr>lastUpdated := Some now\<rparr>) else metadata s)"
  by (simp add: updateStatus_def Let_def)

lemma field_spread_update:
  "field lastUpdated (Some ((spread m)\<lparr>lastUpdated := Some now\<rparr>)) = Some now"
  "field format (Some ((spread m)\<lparr>lastUpdated := Some now\<rparr>)) = field format m"
  "field width (Some ((spread m)\<lparr>lastUpdated := Some now\<rparr>)) = field width m"
  "field height (Some ((spread m)\<lparr>lastUpdated := Some now\<rparr>)) = field height m"
  "field size_meta (Some ((spread m)\<lparr>lastUpdated := Some now\<rparr>)) = field size_meta m"
  by (cases m; simp add: field_def spread_def empty_object_def)+

text \<open>
  C3. For every message and classification, \<open>updateStatus\<close> overwrites the status text and
  classification. When the classification is success, or it is not error and a displayable
  image URL exists (the URL is truthy), the metadata becomes an object whose timestamp is
  the current time and whose other four properties are those of the old metadata (absent
  where the old metadata was null or lacked them); in every other case the metadata is
  left as it was.
\<close>

theorem updateStatus_effect:
  "statusText (updateStatus msg ty now s) = msg
   \<and> statusType (updateStatus msg ty now s) = ty
   \<and> (if ty = Success \<or> (ty \<noteq> Error \<and> truthy (currentImageUrl s))
       then metadata (updateStatus msg ty now s) \<noteq> None
            \<and> field lastUpdated (metadata (updateStatus msg ty now s)) = Some now
            \<and> field format (metadata (updateStatus msg ty now s)) = field format (metadata s)
            \<and> field width (metadata (updateStatus msg ty now s)) = field width (metadata s)
            \<and> field height (metadata (updateStatus msg ty now s)) = field height (metadata s)
            \<and> field size_meta (metadata (updateStatus msg ty now s)) = field size_meta (metadata s)
       else metadata (updateStatus msg ty now s) = metadata s)"
proof (cases "ty = Success \<or> (ty \<noteq> Error \<and> truthy (currentImageUrl s))")
  case True
  then have "metadata (updateStatus msg ty now s)
               = Some ((spread (metadata s))\<lparr>lastUpdated := Some now\<rparr>)"
    unfolding updateStatus_metadata by auto
  with True show ?thesis
    by (simp add: updateStatus_statusText updateStatus_statusType field_spread_update)
next
  case False
  then have "metadata (updateStatus msg ty now s) = metadata s"
    unfolding updateStatus_metadata by auto
  with False show ?thesis
    by (auto simp: updateStatus_statusText updateStatus_statusType)
qed

theorem updateStatus_effect_witness:
  "field lastUpdated (metadata (updateStatus ''Displaying'' Neutral 7
       (initial\<lparr>currentImageUrl := Some ''data:x''\<rparr>))) = Some 7
   \<and> metadata (updateStatus ''Displaying'' Neutral 7 initial) = None
   \<and> metadata (updateStatus ''Failed to send'' Error 7
       (initial\<lparr>currentImageUrl := Some ''data:x''\<rparr>)) = None
   \<and> field lastUpdated (metadata (updateStatus ''Sent successfully'' Success 7 initial)) = Some 7"
  using updateStatus_effect [of "''Displaying''" Neutral 7 "initial\<lparr>currentImageUrl := Some ''data:x''\<rparr>"]
    updateStatus_effect [of "''Displaying''" Neutral 7 initial]
    updateStatus_effect [of "''Failed to send''" Error 7 "initial\<lparr>currentImageUrl := Some ''data:x''\<rparr>"]
    updateStatus_effect [of "''Sent successfully''" Success 7 initial]
  by (simp add: initial_def truthy_def)

text \<open>
  C7. For every state, an image render failure sets the status to error "Failed to display
  image" and leaves the loading flag as it was; a loading flag that was true stays true.
\<close>

theorem image_onError_effect:
  "statusType (image_onError now s) = Error
   \<and> statusText (image_onError now s) = ''Failed to display image''
   \<and> loading (image_onError now s) = loading s
   \<and> loading (image_onError now (s\<lparr>loading := True\<rparr>))"
  by (simp add: image_onError_def updateStatus_statusText updateStatus_statusType
      updateStatus_loading)

theorem image_onError_effect_witness:
  "loading (image_onError 3 (initial\<lparr>loading := True, currentImageUrl := Some ''data:x''\<rparr>))
   \<and> statusType (image_onError 3 (initial\<lparr>loading := True, currentImageUrl := Some ''data:x''\<rparr>))
       = Error"
  using image_onError_effect [of 3 "initial\<lparr>loading := True, currentImageUrl := Some ''data:x''\<rparr>"]
  by (simp add: initial_def)

subsection \<open>The send action\<close>

lemma handleSend_begin_guard:
  "selectedFile s = None \<or> storedWriteOperation s = None \<Longrightarrow> handleSend_begin now s = (s, [])"
  by (auto simp: handleSend_begin_def split: option.splits)

lemma handleSend_begin_call:
  "selectedFile s = Some f \<Longrightarrow> storedWriteOperation s = Some w \<Longrightarrow>
   handleSend_begin now s
     = (updateStatus ''Sending...'' Neutral now (s\<lparr>loading := True\<rparr>), [CallWrite w f])"
  by (simp add: handleSend_begin_def Let_def)

lemma handleSend_settle_loading: "\<not> loading (handleSend_settle outcome now s)"
  by (simp add: handleSend_settle_def Let_def)

lemma handleSend_settle_statusText:
  "statusText (handleSend_settle outcome now s)
     = (if outcome = Resolves then ''Sent successfully'' else ''Failed to send'')"
  by (cases outcome) (simp_all add: handleSend_settle_def Let_def updateStatus_statusText)

lemma handleSend_settle_statusType:
  "statusType (handleSend_settle outcome now s) = (if outcome = Resolves then Success else Error)"
  by (cases outcome) (simp_all add: handleSend_settle_def Let_def updateStatus_statusType)

text \<open>
  C2. In every state with a selected file \<open>f\<close> and a stored write operation \<open>w\<close>, the send
  action first sets the loading flag and the status neutral "Sending...", and calls \<open>w\<close>
  with \<open>f\<close>. When the outcome arrives, in whatever state \<open>s'\<close> the component then is
  (the state left by the first part when nothing ran in between), the status becomes
  success "Sent successfully" if the operation resolved and error "Failed to send" if it
  rejected or threw, and in each of the three outcomes the loading flag is false at the end.
\<close>

theorem handleSend_outcomes:
  assumes "selectedFile s = Some f" and "storedWriteOperation s = Some w"
  shows "loading (fst (handleSend_begin t1 s))
    \<and> statusText (fst (handleSend_begin t1 s)) = ''Sending...''
    \<and> statusType (fst (handleSend_begin t1 s)) = Neutral
    \<and> snd (handleSend_begin t1 s) = [CallWrite w f]
    \<and> handleSend outcome t1 t2 s
        = (handleSend_settle outcome t2 (fst (handleSend_begin t1 s)), [CallWrite w f])
    \<and> \<not> loading (handleSend_settle outcome t2 s')
    \<and> statusText (handleSend_settle outcome t2 s')
        = (if outcome = Resolves then ''Sent successfully'' else ''Failed to send'')
    \<and> statusType (handleSend_settle outcome t2 s')
        = (if outcome = Resolves then Success else Error)"
proof -
  have b: "handleSend_begin t1 s
             = (updateStatus ''Sending...'' Neutral t1 (s\<lparr>loading := True\<rparr>), [CallWrite w f])"
    using assms by (rule handleSend_begin_call)
  have "handleSend outcome t1 t2 s
          = (handleSend_settle outcome t2 (fst (handleSend_begin t1 s)), [CallWrite w f])"
    by (simp add: handleSend_def b)
  then show ?thesis
    by (simp add: b updateStatus_statusText updateStatus_statusType updateStatus_loading
        handleSend_settle_loading handleSend_settle_statusText handleSend_settle_statusType)
qed

theorem handleSend_outcomes_witness:
  "statusText (fst (handleSend Resolves 1 2
      (initial\<lparr>selectedFile := Some \<lparr>name = ''a.png'', size_file = 2048\<rparr>,
                storedWriteOperation := Some 5\<rparr>))) = ''Sent successfully''
   \<and> \<not> loading (fst (handleSend Resolves 1 2
      (initial\<lparr>selectedFile := Some \<lparr>name = ''a.png'', size_file = 2048\<rparr>,
                storedWriteOperation := Some 5\<rparr>)))
   \<and> snd (handleSend Resolves 1 2
      (initial\<lparr>selectedFile := Some \<lparr>name = ''a.png'', size_file = 2048\<rparr>,
                storedWriteOperation := Some 5\<rparr>))
       = [CallWrite 5 \<lparr>name = ''a.png'', size_file = 2048\<rparr>]"
  using handleSend_outcomes [of
      "initial\<lparr>selectedFile := Some \<lparr>name = ''a.png'', size_file = 2048\<rparr>,
                storedWriteOperation := Some 5\<rparr>"
      "\<lparr>name = ''a.png'', size_file = 2048\<rparr>" 5 1 Resolves 2
      "fst (handleSend_begin 1 (initial\<lparr>selectedFile := Some \<lparr>name = ''a.png'', size_file = 2048\<rparr>,
                storedWriteOperation := Some 5\<rparr>))"]
  by (simp add: initial_def)

text \<open>
  C4. In every state in which no file is selected or no write operation is stored, the send
  action changes nothing: it returns the state it was given, so status text, classification,
  metadata, selected file, image URL and loading flag are as before, no intermediate state
  with the loading flag set exists, and no call is made.
\<close>

theorem handleSend_guard:
  assumes "selectedFile s = None \<or> storedWriteOperation s = None"
  shows "handleSend_begin now s = (s, []) \<and> handleSend outcome t1 t2 s = (s, [])"
  using assms by (simp add: handleSend_def handleSend_begin_guard)

theorem handleSend_guard_witness:
  "handleSend Resolves 1 2 (fst (handleFileSelect (Some [\<lparr>name = ''a.png'', size_file = 2048\<rparr>]) 0 initial))
     = (fst (handleFileSelect (Some [\<lparr>name = ''a.png'', size_file = 2048\<rparr>]) 0 initial), [])
   \<and> statusText (fst (handleSend Resolves 1 2
        (fst (handleFileSelect (Some [\<lparr>name = ''a.png'', size_file = 2048\<rparr>]) 0 initial))))
       = ''No data received yet''
   \<and> \<not> loading (fst (handleSend_begin 1
        (fst (handleFileSelect (Some [\<lparr>name = ''a.png'', size_file = 2048\<rparr>]) 0 initial))))"
  using handleSend_guard [of
      "fst (handleFileSelect (Some [\<lparr>name = ''a.png'', size_file = 2048\<rparr>]) 0 initial)"
      1 Resolves 1 2]
  by (simp add: initial_def handleFileSelect_def)

subsection \<open>Configuration\<close>

text \<open>
  C5. \<open>setValue\<close> keeps only the write operation of its bundle, and the last one wins: after
  two calls that supply the write operations \<open>w1\<close> and then \<open>w2\<close>, the state is the original
  one with \<open>w2\<close> stored, and a send then calls \<open>w2\<close> with the selected file and makes no call
  of \<open>w1\<close>. \<open>setValue\<close> itself makes no call at all (so no read and no observation), changes no
  field other than the stored write operation, and does not depend on the read and observe
  operations of the bundle.
\<close>

theorem setValue_last_write_wins:
  assumes "writeOperation o1 = Some w1" and "writeOperation o2 = Some w2"
    and "selectedFile s = Some f"
  shows "(let sa = fst (setValue v (Some o1) s);
              sb = fst (setValue v (Some o2) sa);
              calls = snd (handleSend_begin now sb)
          in sb = s\<lparr>storedWriteOperation := Some w2\<rparr>
             \<and> calls = [CallWrite w2 f]
             \<and> (w1 \<noteq> w2 \<longrightarrow> (\<forall>f'. CallWrite w1 f' \<notin> set calls)))
    \<and> snd (setValue v opts s) = []
    \<and> fst (setValue v opts s)
        = s\<lparr>storedWriteOperation := storedWriteOperation (fst (setValue v opts s))\<rparr>
    \<and> setValue v (Some (o1\<lparr>readOperation := r, observeOperation := ob\<rparr>)) s
        = setValue v (Some o1) s"
proof -
  have a: "fst (setValue v (Some o1) s) = s\<lparr>storedWriteOperation := Some w1\<rparr>"
    using assms(1) by (simp add: setValue_def)
  have b: "fst (setValue v (Some o2) (s\<lparr>storedWriteOperation := Some w1\<rparr>))
             = s\<lparr>storedWriteOperation := Some w2\<rparr>"
    using assms(2) by (simp add: setValue_def)
  have c: "handleSend_begin now (s\<lparr>storedWriteOperation := Some w2\<rparr>)
             = (updateStatus ''Sending...'' Neutral now
                  (s\<lparr>storedWriteOperation := Some w2, loading := True\<rparr>), [CallWrite w2 f])"
    using assms(3) by (simp add: handleSend_begin_def Let_def)
  have d: "snd (setValue v opts s) = []"
    by (simp add: setValue_def split: option.splits)
  have e: "fst (setValue v opts s)
        = s\<lparr>storedWriteOperation := storedWriteOperation (fst (setValue v opts s))\<rparr>"
    by (simp add: setValue_def split: option.splits)
  have g: "setValue v (Some (o1\<lparr>readOperation := r, observeOperation := ob\<rparr>)) s
        = setValue v (Some o1) s"
    by (simp add: setValue_def)
  have "let sa = fst (setValue v (Some o1) s);
              sb = fst (setValue v (Some o2) sa);
              calls = snd (handleSend_begin now sb)
          in sb = s\<lparr>storedWriteOperation := Some w2\<rparr>
             \<and> calls = [CallWrite w2 f]
             \<and> (w1 \<noteq> w2 \<longrightarrow> (\<forall>f'. CallWrite w1 f' \<notin> set calls))"
    unfolding Let_def a b c by simp
  with d e g show ?thesis by blast
qed

theorem setValue_last_write_wins_witness:
  "snd (handleSend_begin 0
     (fst (setValue () (Some \<lparr>readOperation = Some 9, writeOperation = Some 2, observeOperation = None\<rparr>)
        (fst (setValue () (Some \<lparr>readOperation = None, writeOperation = Some 1, observeOperation = Some 8\<rparr>)
           (initial\<lparr>selectedFile := Some \<lparr>name = ''a.png'', size_file = 2048\<rparr>\<rparr>))))))
     = [CallWrite 2 \<lparr>name = ''a.png'', size_file = 2048\<rparr>]"
proof -
  have h1: "writeOperation \<lparr>readOperation = None, writeOperation = Some 1, observeOperation = Some 8\<rparr>
              = Some 1"
    by simp
  have h2: "writeOperation \<lparr>readOperation = Some 9, writeOperation = Some 2, observeOperation = None\<rparr>
              = Some 2"
    by simp
  have h3: "selectedFile (initial\<lparr>selectedFile := Some \<lparr>name = ''a.png'', size_file = 2048\<rparr>\<rparr>)
              = Some \<lparr>name = ''a.png'', size_file = 2048\<rparr>"
    by simp
  from setValue_last_write_wins [OF h1 h2 h3, where v = "()" and now = 0 and opts = None
      and r = None and ob = None]
  show ?thesis
    unfolding Let_def by blast
qed

subsection \<open>Cancel\<close>

text \<open>
  C6. In every state with a selected file, the cancel action sets the selected file to null
  and leaves the displayable image URL and the metadata as they were; the file-picker
  input, which is mounted whenever the Cancel button is, gets the empty value and no error
  is raised.
\<close>

theorem cancel_onClick_frame:
  assumes "selectedFile s = Some f"
  shows "selectedFile (fst (cancel_onClick s)) = None
    \<and> currentImageUrl (fst (cancel_onClick s)) = currentImageUrl s
    \<and> metadata (fst (cancel_onClick s)) = metadata s
    \<and> (fileInput s \<noteq> None \<longrightarrow>
         fileInput (fst (cancel_onClick s)) = Some [] \<and> snd (cancel_onClick s) = None)"
  by (cases "fileInput s") (simp_all add: cancel_onClick_def Let_def)

theorem cancel_onClick_frame_witness:
  "selectedFile (fst (cancel_onClick
      (initial\<lparr>canWrite := True, selectedFile := Some \<lparr>name = ''a.png'', size_file = 2048\<rparr>,
                currentImageUrl := Some ''data:x'', fileInput := Some ''a.png''\<rparr>))) = None
   \<and> currentImageUrl (fst (cancel_onClick
      (initial\<lparr>canWrite := True, selectedFile := Some \<lparr>name = ''a.png'', size_file = 2048\<rparr>,
                currentImageUrl := Some ''data:x'', fileInput := Some ''a.png''\<rparr>))) = Some ''data:x''
   \<and> fileInput (fst (cancel_onClick
      (initial\<lparr>canWrite := True, selectedFile := Some \<lparr>name = ''a.png'', size_file = 2048\<rparr>,
                currentImageUrl := Some ''data:x'', fileInput := Some ''a.png''\<rparr>))) = Some []"
  using cancel_onClick_frame [of
      "initial\<lparr>canWrite := True, selectedFile := Some \<lparr>name = ''a.png'', size_file = 2048\<rparr>,
                currentImageUrl := Some ''data:x'', fileInput := Some ''a.png''\<rparr>"
      "\<lparr>name = ''a.png'', size_file = 2048\<rparr>"]
  by (simp add: initial_def)

subsection \<open>Metadata written before any image has loaded\<close>

lemma handleSend_resolves_after_select:
  "handleSend Resolves t1 t2
     (fst (handleFileSelect (Some [f]) t0
        (fst (setValue v
           (Some \<lparr>readOperation = None, writeOperation = Some w, observeOperation = None\<rparr>)
           (initial\<lparr>canWrite := True\<rparr>)))))
   = (initial\<lparr>canWrite := True, storedWriteOperation := Some w, selectedFile := Some f,
        statusText := ''Sent successfully'', statusType := Success,
        metadata := Some \<lparr>format = None, width = None, height = None, size_meta = None,
                           lastUpdated = Some t2\<rparr>,
        loading := False\<rparr>,
      [CallWrite w f])"
  by (simp add: handleSend_def handleSend_begin_def handleSend_settle_def updateStatus_def
      handleFileSelect_def setValue_def initial_def truthy_def spread_def empty_object_def
      Let_def)

text \<open>
  C10. When the timestamp rule of \<open>updateStatus\<close> fires while the metadata is null, the
  resulting metadata object has the timestamp and nothing else: format, width, height and
  size are absent, not defaulted, and the "Last update" line shows a time. Such a state is
  reached from the initial one by configuring a write operation, selecting a file and
  sending it successfully before any image has loaded, so a metadata object with all five
  properties is not an invariant of the component.
\<close>

theorem updateStatus_null_metadata:
  "(metadata s = None \<and> (ty = Success \<or> (truthy (currentImageUrl s) \<and> ty \<noteq> Error)) \<longrightarrow>
      metadata (updateStatus msg ty now s)
        = Some \<lparr>format = None, width = None, height = None, size_meta = None,
                 lastUpdated = Some now\<rparr>
      \<and> lastUpdateText (updateStatus msg ty now s) = LocaleTimeString now)
   \<and> \<not> full_metadata \<lparr>format = None, width = None, height = None, size_meta = None,
                        lastUpdated = Some now\<rparr>
   \<and> (let s3 = fst (handleSend Resolves t1 t2
                  (fst (handleFileSelect (Some [f]) t0
                     (fst (setValue v
                        (Some \<lparr>readOperation = None, writeOperation = Some w,
                               observeOperation = None\<rparr>)
                        (initial\<lparr>canWrite := True\<rparr>))))))
       in metadata s3
            = Some \<lparr>format = None, width = None, height = None, size_meta = None,
                     lastUpdated = Some t2\<rparr>
          \<and> lastUpdateText s3 = LocaleTimeString t2)"
proof -
  have "metadata s = None \<Longrightarrow> ty = Success \<or> (truthy (currentImageUrl s) \<and> ty \<noteq> Error) \<Longrightarrow>
      metadata (updateStatus msg ty now s)
        = Some \<lparr>format = None, width = None, height = None, size_meta = None,
                 lastUpdated = Some now\<rparr>"
    by (simp add: updateStatus_metadata spread_def empty_object_def)
  then show ?thesis
    unfolding Let_def handleSend_resolves_after_select
    by (auto simp: lastUpdateText_def full_metadata_def)
qed

theorem updateStatus_null_metadata_witness:
  "metadata (updateStatus ''Sent successfully'' Success 9
      (initial\<lparr>selectedFile := Some \<lparr>name = ''a.png'', size_file = 2048\<rparr>\<rparr>))
     = Some \<lparr>format = None, width = None, height = None, size_meta = None,
              lastUpdated = Some 9\<rparr>
   \<and> lastUpdateText (updateStatus ''Sent successfully'' Success 9
      (initial\<lparr>selectedFile := Some \<lparr>name = ''a.png'', size_file = 2048\<rparr>\<rparr>))
     = LocaleTimeString 9"
  using updateStatus_null_metadata [where
      s = "initial\<lparr>selectedFile := Some \<lparr>name = ''a.png'', size_file = 2048\<rparr>\<rparr>"
      and ty = Success and msg = "''Sent successfully''" and now = 9
      and ?t0.0 = 0 and ?t1.0 = 1 and ?t2.0 = 2 and w = 5 and v = "()"
      and f = "\<lparr>name = ''a.png'', size_file = 2048\<rparr>"]
  by (simp add: initial_def)

end
